theory Spec2Isabelle
  imports Complex_Main
begin

section \<open>Python text primitives\<close>

text \<open>
  Text is a list of characters, and a character is one of the 256 code points U+0000 to
  U+00FF (Latin-1), the range of the type \<open>char\<close>. The string methods the parsers call
  are written out on this range as CPython 3.11 computes them: \<open>lower\<close>, \<open>strip\<close>,
  \<open>split\<close>, \<open>isdigit\<close>, \<open>int\<close>, \<open>in\<close>, \<open>repr\<close>. Text with a code point above U+00FF
  is outside the development.
\<close>

datatype error =
    InvalidValueObjectException (value_object_type: string) (invalid_value: string) (code: int)
  | ValueError string
  | TypeError
  | IndexError
  | KeyError string

text \<open>
  \<open>str.lower\<close>: the upper-case letters below U+0100 are \<open>A\<close> to \<open>Z\<close> and U+00C0 to
  U+00DE without the multiplication sign U+00D7; each maps to the code point 32 above it.
\<close>

definition upper_case :: "char list" where
  "upper_case = ''ABCDEFGHIJKLMNOPQRSTUVWXYZ'' @
       [CHR 0xC0, CHR 0xC1, CHR 0xC2, CHR 0xC3, CHR 0xC4, CHR 0xC5, CHR 0xC6, CHR 0xC7,
        CHR 0xC8, CHR 0xC9, CHR 0xCA, CHR 0xCB, CHR 0xCC, CHR 0xCD, CHR 0xCE, CHR 0xCF,
        CHR 0xD0, CHR 0xD1, CHR 0xD2, CHR 0xD3, CHR 0xD4, CHR 0xD5, CHR 0xD6, CHR 0xD8,
        CHR 0xD9, CHR 0xDA, CHR 0xDB, CHR 0xDC, CHR 0xDD, CHR 0xDE]"

definition lower_case :: "char list" where
  "lower_case = ''abcdefghijklmnopqrstuvwxyz'' @
       [CHR 0xE0, CHR 0xE1, CHR 0xE2, CHR 0xE3, CHR 0xE4, CHR 0xE5, CHR 0xE6, CHR 0xE7,
        CHR 0xE8, CHR 0xE9, CHR 0xEA, CHR 0xEB, CHR 0xEC, CHR 0xED, CHR 0xEE, CHR 0xEF,
        CHR 0xF0, CHR 0xF1, CHR 0xF2, CHR 0xF3, CHR 0xF4, CHR 0xF5, CHR 0xF6, CHR 0xF8,
        CHR 0xF9, CHR 0xFA, CHR 0xFB, CHR 0xFC, CHR 0xFD, CHR 0xFE]"

definition lower_char :: "char \<Rightarrow> char" where
  "lower_char c =
     (case map_of (zip upper_case lower_case) c of
        Some d \<Rightarrow> d
      | None \<Rightarrow> c)"

definition py_lower :: "string \<Rightarrow> string" where
  "py_lower s = map lower_char s"

text \<open>
  \<open>str.isspace\<close> below U+0100: the ASCII white space, the four separators U+001C to
  U+001F, the next-line control U+0085 and the no-break space U+00A0. \<open>strip\<close> removes
  these from both ends.
\<close>

definition whitespace :: "char list" where
  "whitespace = [CHR 0x09, CHR 0x0A, CHR 0x0B, CHR 0x0C, CHR 0x0D,
                 CHR 0x1C, CHR 0x1D, CHR 0x1E, CHR 0x1F, CHR 0x20,
                 CHR 0x85, CHR 0xA0]"

definition is_space :: "char \<Rightarrow> bool" where
  "is_space c = (c \<in> set whitespace)"

definition py_strip :: "string \<Rightarrow> string" where
  "py_strip s = rev (dropWhile is_space (rev (dropWhile is_space s)))"

text \<open>\<open>s.split(sep)\<close> for a one-character separator: never an empty list.\<close>

fun py_split :: "char \<Rightarrow> string \<Rightarrow> string list" where
  "py_split sep [] = [[]]"
| "py_split sep (c # cs) =
     (if c = sep then [] # py_split sep cs
      else (case py_split sep cs of
              [] \<Rightarrow> [[c]]
            | p # ps \<Rightarrow> (c # p) # ps))"

text \<open>\<open>s.split(sep, n)\<close>: at most \<open>n\<close> cuts, the rest of the text stays in the last part.\<close>

fun py_split_max :: "nat \<Rightarrow> char \<Rightarrow> string \<Rightarrow> string list" where
  "py_split_max n sep [] = [[]]"
| "py_split_max n sep (c # cs) =
     (if n = 0 then [c # cs]
      else if c = sep then [] # py_split_max (n - 1) sep cs
      else (case py_split_max n sep cs of
              [] \<Rightarrow> [[c]]
            | p # ps \<Rightarrow> (c # p) # ps))"

text \<open>
  \<open>"__" in s\<close> together with \<open>s.split("__", 1)\<close>: \<open>None\<close> when the text has no double
  underscore, otherwise the text before and after its first occurrence.
\<close>

fun split_double_underscore :: "string \<Rightarrow> (string \<times> string) option" where
  "split_double_underscore [] = None"
| "split_double_underscore [c] = None"
| "split_double_underscore (c # d # cs) =
     (if c = CHR ''_'' \<and> d = CHR ''_'' then Some ([], cs)
      else map_option (\<lambda>(a, b). (c # a, b)) (split_double_underscore (d # cs)))"

text \<open>
  \<open>str.isdigit\<close> is true of a text that is not empty and holds only characters with
  the digit property: below U+0100 these are \<open>0\<close> to \<open>9\<close> and the superscripts two,
  three and one (U+00B2, U+00B3, U+00B9). Only \<open>0\<close> to \<open>9\<close> are decimal digits, the ones
  \<open>int\<close> reads.
\<close>

definition is_digit :: "char \<Rightarrow> bool" where
  "is_digit c = (c \<in> set (''0123456789'' @ [CHR 0xB2, CHR 0xB3, CHR 0xB9]))"

definition py_isdigit :: "string \<Rightarrow> bool" where
  "py_isdigit s = (s \<noteq> [] \<and> list_all is_digit s)"

definition is_decimal :: "char \<Rightarrow> bool" where
  "is_decimal c = (c \<in> set ''0123456789'')"

definition digit_val :: "char \<Rightarrow> int" where
  "digit_val c = int (length (takeWhile (\<lambda>d. d \<noteq> c) ''0123456789''))"

definition digits_val :: "string \<Rightarrow> int" where
  "digits_val s = foldl (\<lambda>a c. 10 * a + digit_val c) 0 s"

text \<open>\<open>needle in haystack\<close> on two texts.\<close>

fun py_contains :: "string \<Rightarrow> string \<Rightarrow> bool" where
  "py_contains needle [] = (needle = [])"
| "py_contains needle (c # cs) =
     (take (length needle) (c # cs) = needle \<or> py_contains needle cs)"

definition join :: "string \<Rightarrow> string list \<Rightarrow> string" where
  "join sep parts = (case parts of
                       [] \<Rightarrow> []
                     | p # ps \<Rightarrow> foldl (\<lambda>acc q. acc @ sep @ q) p ps)"

function digits_of_nat :: "nat \<Rightarrow> string" where
  "digits_of_nat n =
     (if n < 10 then [''0123456789'' ! n]
      else digits_of_nat (n div 10) @ [''0123456789'' ! (n mod 10)])"
  by pat_completeness auto
termination
  by (relation "measure id") auto

declare digits_of_nat.simps [simp del]

definition int_str :: "int \<Rightarrow> string" where
  "int_str i = (if i < 0 then CHR ''-'' # digits_of_nat (nat (- i)) else digits_of_nat (nat i))"

definition hex2 :: "char \<Rightarrow> string" where
  "hex2 c = (let n = (of_char c :: nat)
             in [''0123456789abcdef'' ! (n div 16), ''0123456789abcdef'' ! (n mod 16)])"

text \<open>
  \<open>repr\<close> of a text: single quotes unless the text holds a single quote and no double
  quote; the quote in use and the backslash are escaped, and a character that is not
  printable (below U+0100: the controls U+0000 to U+001F and U+007F to U+009F, the
  no-break space U+00A0 and the soft hyphen U+00AD) is written as an escape.
\<close>

definition printable :: "char \<Rightarrow> bool" where
  "printable c = (let n = (of_char c :: nat)
                  in \<not> (n < 0x20 \<or> (0x7F \<le> n \<and> n \<le> 0xA0) \<or> n = 0xAD))"

definition repr_char :: "char \<Rightarrow> char \<Rightarrow> string" where
  "repr_char quote c =
     (if c = quote \<or> c = CHR 0x5C then [CHR 0x5C, c]
      else if c = CHR 0x09 then [CHR 0x5C, CHR ''t'']
      else if c = CHR 0x0A then [CHR 0x5C, CHR ''n'']
      else if c = CHR 0x0D then [CHR 0x5C, CHR ''r'']
      else if \<not> printable c then [CHR 0x5C, CHR ''x''] @ hex2 c
      else [c])"

definition repr_text :: "string \<Rightarrow> string" where
  "repr_text s =
     (let quote = (if CHR 0x27 \<in> set s \<and> CHR 0x22 \<notin> set s then CHR 0x22 else CHR 0x27)
      in quote # concat (map (repr_char quote) s) @ [quote])"

text \<open>
  \<open>int(s)\<close> on a text, in base ten. White space is skipped at both ends (for \<open>int\<close>
  this is the ASCII white space, U+0085 and U+00A0, not the separators U+001C to
  U+001F); one sign may follow; then comes a run of decimal digits in which single
  underscores may stand between two digits. A run with more digits than
  \<open>sys.get_int_max_str_digits()\<close>, 4300 unless the interpreter was told otherwise, is
  refused before anything after the run is looked at. Every other malformed text is an
  invalid literal; the message shows at most 200 characters of the \<open>repr\<close> of the text.
\<close>

definition int_max_str_digits :: nat where
  "int_max_str_digits = 4300"

definition int_space :: "char \<Rightarrow> bool" where
  "int_space c = (c \<in> set [CHR 0x09, CHR 0x0A, CHR 0x0B, CHR 0x0C, CHR 0x0D, CHR 0x20,
                            CHR 0x85, CHR 0xA0])"

definition invalid_literal :: "string \<Rightarrow> error" where
  "invalid_literal s =
     ValueError (''invalid literal for int() with base 10: '' @ take 200 (repr_text s))"

definition exceeds_limit :: "nat \<Rightarrow> error" where
  "exceeds_limit n =
     ValueError (''Exceeds the limit ('' @ int_str (int int_max_str_digits)
                 @ '' digits) for integer string conversion: value has ''
                 @ int_str (int n)
                 @ '' digits; use sys.set_int_max_str_digits() to increase the limit'')"

definition py_int :: "string \<Rightarrow> error + int" where
  "py_int s =
     (let t = dropWhile int_space s;
          negative = (take 1 t = ''-'');
          body = (if take 1 t = ''-'' \<or> take 1 t = ''+'' then drop 1 t else t);
          run = takeWhile (\<lambda>c. is_decimal c \<or> c = CHR ''_'') body;
          rest = dropWhile int_space (drop (length run) body);
          digits = filter is_decimal run
      in if take 1 run = ''_'' \<or> py_contains ''__'' run \<or> (run \<noteq> [] \<and> last run = CHR ''_'')
           then Inl (invalid_literal s)
         else if length digits > int_max_str_digits
           then Inl (exceeds_limit (length digits))
         else if run = [] \<or> rest \<noteq> []
           then Inl (invalid_literal s)
         else Inr (if negative then - digits_val digits else digits_val digits))"

section \<open>Python values\<close>

text \<open>
  The values a filter or a candidate attribute can hold: \<open>None\<close>, booleans, integers,
  floats, texts, lists, tuples and opaque objects (a bound method, a class). A float is
  its exact numeric value (or an infinity, or not-a-number) together with its printed
  form; an opaque object is known by its printed form only.
\<close>

datatype fval = Finite rat | PosInf | NegInf | NaN

datatype pyval =
    PNone
  | PBool bool
  | PInt int
  | PFloat fval string
  | PStr string
  | PList "pyval list"
  | PTuple "pyval list"
  | PObj string

text \<open>Booleans, integers and floats compare with each other by numeric value.\<close>

fun num_of :: "pyval \<Rightarrow> fval option" where
  "num_of (PBool b) = Some (Finite (if b then 1 else 0))"
| "num_of (PInt i) = Some (Finite (of_int i))"
| "num_of (PFloat v t) = Some v"
| "num_of v = None"

fun fval_eq :: "fval \<Rightarrow> fval \<Rightarrow> bool" where
  "fval_eq (Finite a) (Finite b) = (a = b)"
| "fval_eq PosInf PosInf = True"
| "fval_eq NegInf NegInf = True"
| "fval_eq x y = False"

fun fval_lt :: "fval \<Rightarrow> fval \<Rightarrow> bool" where
  "fval_lt (Finite a) (Finite b) = (a < b)"
| "fval_lt NegInf (Finite b) = True"
| "fval_lt NegInf PosInf = True"
| "fval_lt (Finite a) PosInf = True"
| "fval_lt x y = False"

datatype cmp_op = LT | LE | GT | GE

fun fval_cmp :: "cmp_op \<Rightarrow> fval \<Rightarrow> fval \<Rightarrow> bool" where
  "fval_cmp LT x y = fval_lt x y"
| "fval_cmp LE x y = (fval_lt x y \<or> fval_eq x y)"
| "fval_cmp GT x y = fval_lt y x"
| "fval_cmp GE x y = (fval_lt y x \<or> fval_eq x y)"

fun str_lt :: "string \<Rightarrow> string \<Rightarrow> bool" where
  "str_lt [] [] = False"
| "str_lt [] (y # ys) = True"
| "str_lt (x # xs) [] = False"
| "str_lt (x # xs) (y # ys) =
     ((of_char x :: nat) < of_char y \<or> (x = y \<and> str_lt xs ys))"

fun str_cmp :: "cmp_op \<Rightarrow> string \<Rightarrow> string \<Rightarrow> bool" where
  "str_cmp LT s t = str_lt s t"
| "str_cmp LE s t = (str_lt s t \<or> s = t)"
| "str_cmp GT s t = str_lt t s"
| "str_cmp GE s t = (str_lt t s \<or> s = t)"

text \<open>\<open>a == b\<close>.\<close>

fun py_eq :: "pyval \<Rightarrow> pyval \<Rightarrow> bool"
  and seq_eq :: "pyval list \<Rightarrow> pyval list \<Rightarrow> bool" where
  "py_eq PNone PNone = True"
| "py_eq (PStr s) (PStr t) = (s = t)"
| "py_eq (PList xs) (PList ys) = seq_eq xs ys"
| "py_eq (PTuple xs) (PTuple ys) = seq_eq xs ys"
| "py_eq (PObj a) (PObj b) = (a = b)"
| "py_eq a b = (case (num_of a, num_of b) of
                  (Some x, Some y) \<Rightarrow> fval_eq x y
                | _ \<Rightarrow> False)"
| "seq_eq [] [] = True"
| "seq_eq (x # xs) (y # ys) = (py_eq x y \<and> seq_eq xs ys)"
| "seq_eq xs ys = False"

text \<open>
  \<open>a < b\<close>, \<open>a <= b\<close>, \<open>a > b\<close>, \<open>a >= b\<close>: \<open>None\<close> is the \<open>TypeError\<close> Python raises
  when the two values are not order-comparable. Sequences compare at their first
  unequal pair of items, or by length.
\<close>

fun py_cmp :: "cmp_op \<Rightarrow> pyval \<Rightarrow> pyval \<Rightarrow> bool option"
  and seq_cmp :: "cmp_op \<Rightarrow> pyval list \<Rightarrow> pyval list \<Rightarrow> bool option" where
  "py_cmp op (PStr s) (PStr t) = Some (str_cmp op s t)"
| "py_cmp op (PList xs) (PList ys) = seq_cmp op xs ys"
| "py_cmp op (PTuple xs) (PTuple ys) = seq_cmp op xs ys"
| "py_cmp op a b = (case (num_of a, num_of b) of
                      (Some x, Some y) \<Rightarrow> Some (fval_cmp op x y)
                    | _ \<Rightarrow> None)"
| "seq_cmp op [] [] = Some (op = LE \<or> op = GE)"
| "seq_cmp op [] (y # ys) = Some (op = LT \<or> op = LE)"
| "seq_cmp op (x # xs) [] = Some (op = GT \<or> op = GE)"
| "seq_cmp op (x # xs) (y # ys) =
     (if py_eq x y then seq_cmp op xs ys else py_cmp op x y)"

text \<open>\<open>repr(v)\<close> and \<open>str(v)\<close>.\<close>

fun py_repr :: "pyval \<Rightarrow> string" where
  "py_repr PNone = ''None''"
| "py_repr (PBool b) = (if b then ''True'' else ''False'')"
| "py_repr (PInt i) = int_str i"
| "py_repr (PFloat v t) = t"
| "py_repr (PStr s) = repr_text s"
| "py_repr (PList xs) = ''['' @ join '', '' (map py_repr xs) @ '']''"
| "py_repr (PTuple xs) =
     (if length xs = 1 then ''('' @ join '', '' (map py_repr xs) @ '',)''
      else ''('' @ join '', '' (map py_repr xs) @ '')'')"
| "py_repr (PObj t) = t"

definition py_str :: "pyval \<Rightarrow> string" where
  "py_str v = (case v of PStr s \<Rightarrow> s | _ \<Rightarrow> py_repr v)"

text \<open>
  \<open>x in container\<close>: membership in a list or a tuple, containment in a text, a
  \<open>TypeError\<close> on everything else.
\<close>

fun py_in :: "pyval \<Rightarrow> pyval \<Rightarrow> error + bool" where
  "py_in x (PList ys) = Inr (list_ex (\<lambda>y. py_eq y x) ys)"
| "py_in x (PTuple ys) = Inr (list_ex (\<lambda>y. py_eq y x) ys)"
| "py_in x (PStr s) = (case x of PStr t \<Rightarrow> Inr (py_contains t s) | _ \<Rightarrow> Inl TypeError)"
| "py_in x c = Inl TypeError"

section \<open>Specifications (base\_specification.py, filter\_specification.py)\<close>

text \<open>
  One constructor for each leaf class, holding what its \<open>__init__\<close> takes; the
  attributes \<open>field\<close>, \<open>operator\<close> and \<open>value\<close> that \<open>FilterSpecification.__init__\<close>
  stores are the functions \<open>field_of\<close>, \<open>operator_of\<close> and \<open>value_of\<close>.
\<close>

datatype filter_spec =
    EqualSpecification string pyval
  | NotEqualSpecification string pyval
  | LessThanSpecification string pyval
  | LessThanOrEqualSpecification string pyval
  | GreaterThanSpecification string pyval
  | GreaterThanOrEqualSpecification string pyval
  | LikeSpecification string pyval
  | InSpecification string pyval
  | BetweenSpecification string pyval pyval
  | IsNullSpecification string
  | IsNotNullSpecification string

datatype spec =
    Filter filter_spec
  | AndSpecification spec spec
  | OrSpecification spec spec
  | NotSpecification spec

fun field_of :: "filter_spec \<Rightarrow> string" where
  "field_of (EqualSpecification f v) = f"
| "field_of (NotEqualSpecification f v) = f"
| "field_of (LessThanSpecification f v) = f"
| "field_of (LessThanOrEqualSpecification f v) = f"
| "field_of (GreaterThanSpecification f v) = f"
| "field_of (GreaterThanOrEqualSpecification f v) = f"
| "field_of (LikeSpecification f v) = f"
| "field_of (InSpecification f v) = f"
| "field_of (BetweenSpecification f lo hi) = f"
| "field_of (IsNullSpecification f) = f"
| "field_of (IsNotNullSpecification f) = f"

fun operator_of :: "filter_spec \<Rightarrow> string" where
  "operator_of (EqualSpecification f v) = ''eq''"
| "operator_of (NotEqualSpecification f v) = ''ne''"
| "operator_of (LessThanSpecification f v) = ''lt''"
| "operator_of (LessThanOrEqualSpecification f v) = ''lte''"
| "operator_of (GreaterThanSpecification f v) = ''gt''"
| "operator_of (GreaterThanOrEqualSpecification f v) = ''gte''"
| "operator_of (LikeSpecification f v) = ''like''"
| "operator_of (InSpecification f v) = ''in''"
| "operator_of (BetweenSpecification f lo hi) = ''between''"
| "operator_of (IsNullSpecification f) = ''is_null''"
| "operator_of (IsNotNullSpecification f) = ''is_not_null''"

fun value_of :: "filter_spec \<Rightarrow> pyval" where
  "value_of (EqualSpecification f v) = v"
| "value_of (NotEqualSpecification f v) = v"
| "value_of (LessThanSpecification f v) = v"
| "value_of (LessThanOrEqualSpecification f v) = v"
| "value_of (GreaterThanSpecification f v) = v"
| "value_of (GreaterThanOrEqualSpecification f v) = v"
| "value_of (LikeSpecification f v) = v"
| "value_of (InSpecification f v) = v"
| "value_of (BetweenSpecification f lo hi) = PList [lo, hi]"
| "value_of (IsNullSpecification f) = PNone"
| "value_of (IsNotNullSpecification f) = PNone"

text \<open>
  \<open>_compare_values(field_value, filter_value)\<close> of each class. The four ordering
  classes and \<open>between\<close> catch the \<open>TypeError\<close> of the comparison and answer
  \<open>False\<close>; \<open>in\<close> catches nothing. The chained comparison of \<open>between\<close> evaluates
  its second half only when the first half is true.
\<close>

fun compare_values :: "filter_spec \<Rightarrow> pyval \<Rightarrow> error + bool" where
  "compare_values (EqualSpecification f v) fv = Inr (py_eq fv v)"
| "compare_values (NotEqualSpecification f v) fv = Inr (\<not> py_eq fv v)"
| "compare_values (LessThanSpecification f v) fv =
     Inr (case py_cmp LT fv v of Some b \<Rightarrow> b | None \<Rightarrow> False)"
| "compare_values (LessThanOrEqualSpecification f v) fv =
     Inr (case py_cmp LE fv v of Some b \<Rightarrow> b | None \<Rightarrow> False)"
| "compare_values (GreaterThanSpecification f v) fv =
     Inr (case py_cmp GT fv v of Some b \<Rightarrow> b | None \<Rightarrow> False)"
| "compare_values (GreaterThanOrEqualSpecification f v) fv =
     Inr (case py_cmp GE fv v of Some b \<Rightarrow> b | None \<Rightarrow> False)"
| "compare_values (LikeSpecification f v) fv =
     Inr (if fv = PNone then False
          else py_contains (py_lower (py_str v)) (py_lower (py_str fv)))"
| "compare_values (InSpecification f vs) fv = py_in fv vs"
| "compare_values (BetweenSpecification f lo hi) fv =
     Inr (case py_cmp LE lo fv of
            None \<Rightarrow> False
          | Some b \<Rightarrow> if b then (case py_cmp LE fv hi of Some b' \<Rightarrow> b' | None \<Rightarrow> False)
                       else False)"
| "compare_values (IsNullSpecification f) fv = Inr (fv = PNone)"
| "compare_values (IsNotNullSpecification f) fv = Inr (fv \<noteq> PNone)"

text \<open>
  A candidate is either an object, given by the attributes \<open>getattr\<close> finds on it,
  or a plain \<open>dict\<close>, given by its entries. \<open>getattr\<close> on a \<open>dict\<close> never reads the
  entries: it finds the attributes of the \<open>dict\<close> type itself (CPython 3.11: eleven
  public methods and the double-underscore attributes) and nothing else. Their values
  are opaque objects, except \<open>__hash__\<close>, which is \<open>None\<close> on a \<open>dict\<close>; the
  printed form given to them here is a placeholder.
\<close>

datatype candidate =
    Object "(string \<times> pyval) list"
  | Mapping "(string \<times> pyval) list"

definition dict_attribute_names :: "string list" where
  "dict_attribute_names =
     [''clear'', ''copy'', ''fromkeys'', ''get'', ''items'', ''keys'', ''pop'', ''popitem'',
      ''setdefault'', ''update'', ''values'',
      ''__class__'', ''__class_getitem__'', ''__contains__'', ''__delattr__'', ''__delitem__'',
      ''__dir__'', ''__doc__'', ''__eq__'', ''__format__'', ''__ge__'', ''__getattribute__'',
      ''__getitem__'', ''__getstate__'', ''__gt__'', ''__hash__'', ''__init__'',
      ''__init_subclass__'', ''__ior__'', ''__iter__'', ''__le__'', ''__len__'', ''__lt__'',
      ''__ne__'', ''__new__'', ''__or__'', ''__reduce__'', ''__reduce_ex__'', ''__repr__'',
      ''__reversed__'', ''__ror__'', ''__setattr__'', ''__setitem__'', ''__sizeof__'',
      ''__str__'', ''__subclasshook__'']"

definition dict_attribute :: "string \<Rightarrow> pyval" where
  "dict_attribute name =
     (if name = ''__hash__'' then PNone
      else PObj (''<attribute '' @ name @ '' of dict object>''))"

fun py_getattr :: "candidate \<Rightarrow> string \<Rightarrow> pyval option" where
  "py_getattr (Object attrs) name = map_of attrs name"
| "py_getattr (Mapping entries) name =
     (if name \<in> set dict_attribute_names then Some (dict_attribute name) else None)"

text \<open>
  \<open>FilterSpecification.is_satisfied_by\<close>: the \<open>AttributeError\<close> of \<open>getattr\<close> is
  caught and answered with \<open>False\<close>.
\<close>

definition filter_is_satisfied_by :: "filter_spec \<Rightarrow> candidate \<Rightarrow> error + bool" where
  "filter_is_satisfied_by l candidate =
     (case py_getattr candidate (field_of l) of
        None \<Rightarrow> Inr False
      | Some field_value \<Rightarrow> compare_values l field_value)"

fun is_satisfied_by :: "spec \<Rightarrow> candidate \<Rightarrow> error + bool" where
  "is_satisfied_by (Filter l) candidate = filter_is_satisfied_by l candidate"
| "is_satisfied_by (AndSpecification left right) candidate =
     (case is_satisfied_by left candidate of
        Inl e \<Rightarrow> Inl e
      | Inr b \<Rightarrow> if b then is_satisfied_by right candidate else Inr False)"
| "is_satisfied_by (OrSpecification left right) candidate =
     (case is_satisfied_by left candidate of
        Inl e \<Rightarrow> Inl e
      | Inr b \<Rightarrow> if b then Inr True else is_satisfied_by right candidate)"
| "is_satisfied_by (NotSpecification s) candidate =
     (case is_satisfied_by s candidate of
        Inl e \<Rightarrow> Inl e
      | Inr b \<Rightarrow> Inr (\<not> b))"

text \<open>
  \<open>to_expression\<close> builds a \<open>dict\<close>; a \<open>doc\<close> is such a tree of dicts and lists with
  Python values at the leaves. A dict keeps its entries in insertion order.
\<close>

datatype doc =
    DVal pyval
  | DList "doc list"
  | DDict "(string \<times> doc) list"

definition filter_to_expression :: "filter_spec \<Rightarrow> doc" where
  "filter_to_expression l =
     DDict [(''field'', DVal (PStr (field_of l))),
            (''operator'', DVal (PStr (operator_of l))),
            (''value'', DVal (value_of l))]"

fun to_expression :: "spec \<Rightarrow> doc" where
  "to_expression (Filter l) = filter_to_expression l"
| "to_expression (AndSpecification left right) =
     DDict [(''operator'', DVal (PStr ''AND'')),
            (''left'', to_expression left),
            (''right'', to_expression right)]"
| "to_expression (OrSpecification left right) =
     DDict [(''operator'', DVal (PStr ''OR'')),
            (''left'', to_expression left),
            (''right'', to_expression right)]"
| "to_expression (NotSpecification s) =
     DDict [(''operator'', DVal (PStr ''NOT'')),
            (''spec'', to_expression s)]"

subsection \<open>SpecificationFactory\<close>

definition operator_keys :: "string list" where
  "operator_keys = [''eq'', ''ne'', ''lt'', ''lte'', ''gt'', ''gte'', ''like'', ''in'',
                    ''between'', ''is_null'', ''is_not_null'']"

definition supported_operators :: "string list" where
  "supported_operators = operator_keys"

fun seq_items :: "pyval \<Rightarrow> pyval list option" where
  "seq_items (PList xs) = Some xs"
| "seq_items (PTuple xs) = Some xs"
| "seq_items v = None"

definition create :: "string \<Rightarrow> string \<Rightarrow> pyval \<Rightarrow> error + filter_spec" where
  "create field operator val =
     (if operator \<notin> set operator_keys then
        Inl (ValueError (''Unsupported operator: '' @ operator @ ''. Supported: ''
                         @ py_repr (PList (map PStr operator_keys))))
      else if operator = ''between'' then
        (case seq_items val of
           None \<Rightarrow> Inl (ValueError ''BETWEEN operator requires list/tuple with 2 values'')
         | Some xs \<Rightarrow>
             if length xs \<noteq> 2
             then Inl (ValueError ''BETWEEN operator requires list/tuple with 2 values'')
             else Inr (BetweenSpecification field (xs ! 0) (xs ! 1)))
      else if operator = ''is_null'' then Inr (IsNullSpecification field)
      else if operator = ''is_not_null'' then Inr (IsNotNullSpecification field)
      else if operator = ''eq'' then Inr (EqualSpecification field val)
      else if operator = ''ne'' then Inr (NotEqualSpecification field val)
      else if operator = ''lt'' then Inr (LessThanSpecification field val)
      else if operator = ''lte'' then Inr (LessThanOrEqualSpecification field val)
      else if operator = ''gt'' then Inr (GreaterThanSpecification field val)
      else if operator = ''gte'' then Inr (GreaterThanOrEqualSpecification field val)
      else if operator = ''like'' then Inr (LikeSpecification field val)
      else Inr (InSpecification field val))"

section \<open>FilterParser (filter\_parser.py)\<close>

definition supported_connectors :: "string list" where
  "supported_connectors = [''and'', ''or'']"

definition operator_mapping :: "(string \<times> string) list" where
  "operator_mapping =
     [(''gt'', ''gt''), (''gte'', ''gte''), (''lt'', ''lt''), (''lte'', ''lte''),
      (''eq'', ''eq''), (''ne'', ''ne''), (''like'', ''like''), (''ilike'', ''ilike''),
      (''in'', ''in''), (''between'', ''between''), (''isnull'', ''isnull''),
      (''isnotnull'', ''isnotnull'')]"

text \<open>
  Python's \<open>float(s)\<close> is a parameter of the parser functions: \<open>None\<close> is its
  \<open>ValueError\<close>, \<open>Some (v, t)\<close> the float of value \<open>v\<close> that prints as \<open>t\<close>.
\<close>

type_synonym float_parser = "string \<Rightarrow> (fval \<times> string) option"

definition convert_single_value :: "float_parser \<Rightarrow> string \<Rightarrow> error + pyval" where
  "convert_single_value py_float value_str =
     (if py_lower value_str \<in> set [''null'', ''none'', []] then Inr PNone
      else if py_lower value_str \<in> set [''true'', ''false'']
        then Inr (PBool (py_lower value_str = ''true''))
      else if py_isdigit value_str
              \<or> (take 1 value_str = ''-'' \<and> py_isdigit (drop 1 value_str))
        then (case py_int value_str of
                Inl e \<Rightarrow> Inl e
              | Inr i \<Rightarrow> Inr (PInt i))
      else if CHR ''.'' \<in> set value_str then
        (case py_float value_str of
           Some (v, t) \<Rightarrow> Inr (PFloat v t)
         | None \<Rightarrow> Inr (PStr value_str))
      else Inr (PStr value_str))"

text \<open>
  The list comprehension \<open>[self._convert_single_value(v.strip()) for v in values]\<close>:
  the pieces are converted from left to right and the first failure ends it.
\<close>

fun convert_pieces :: "float_parser \<Rightarrow> string list \<Rightarrow> error + pyval list" where
  "convert_pieces py_float [] = Inr []"
| "convert_pieces py_float (v # vs) =
     (case convert_single_value py_float (py_strip v) of
        Inl e \<Rightarrow> Inl e
      | Inr x \<Rightarrow> (case convert_pieces py_float vs of
                    Inl e \<Rightarrow> Inl e
                  | Inr xs \<Rightarrow> Inr (x # xs)))"

definition parse_value :: "float_parser \<Rightarrow> string \<Rightarrow> string \<Rightarrow> error + pyval" where
  "parse_value py_float value_str operator =
     (if operator \<in> set [''is_null'', ''is_not_null''] then Inr PNone
      else if operator = ''in'' then
        (case convert_pieces py_float (py_split (CHR ''|'') value_str) of
           Inl e \<Rightarrow> Inl e
         | Inr xs \<Rightarrow> Inr (PList xs))
      else if operator = ''between'' then
        (let vals = py_split (CHR ''|'') value_str
         in if length vals \<noteq> 2
            then Inl (InvalidValueObjectException ''BetweenValue'' value_str 11003010)
            else (case convert_pieces py_float vals of
                    Inl e \<Rightarrow> Inl e
                  | Inr xs \<Rightarrow> Inr (PList xs)))
      else convert_single_value py_float value_str)"

text \<open>
  The body of the loop of \<open>_parse_dict_filters\<close>, for one entry of the dict: the field
  and the operator read from the key, the operator after \<open>operator_mapping\<close>.
\<close>

definition dict_key_field :: "string \<Rightarrow> string" where
  "dict_key_field field_expr =
     (case split_double_underscore field_expr of
        Some (f, operator) \<Rightarrow> f
      | None \<Rightarrow> field_expr)"

definition dict_key_operator :: "string \<Rightarrow> string" where
  "dict_key_operator field_expr =
     (case split_double_underscore field_expr of
        Some (f, operator) \<Rightarrow> py_lower operator
      | None \<Rightarrow> ''eq'')"

definition map_operator :: "string \<Rightarrow> string" where
  "map_operator operator =
     (case map_of operator_mapping operator of
        Some mapped \<Rightarrow> mapped
      | None \<Rightarrow> operator)"

definition parse_dict_item :: "float_parser \<Rightarrow> string \<times> string \<Rightarrow> error + filter_spec" where
  "parse_dict_item py_float item =
     (let field = dict_key_field (fst item);
          operator = map_operator (dict_key_operator (fst item))
      in if operator \<notin> set supported_operators
         then Inl (InvalidValueObjectException ''FilterOperator'' operator 11003008)
         else (case parse_value py_float (snd item) operator of
                 Inl e \<Rightarrow> Inl e
               | Inr parsed_value \<Rightarrow> create field operator parsed_value))"

fun parse_dict_items :: "float_parser \<Rightarrow> (string \<times> string) list \<Rightarrow> error + filter_spec list" where
  "parse_dict_items py_float [] = Inr []"
| "parse_dict_items py_float (item # items) =
     (case parse_dict_item py_float item of
        Inl e \<Rightarrow> Inl e
      | Inr s \<Rightarrow> (case parse_dict_items py_float items of
                    Inl e \<Rightarrow> Inl e
                  | Inr specifications \<Rightarrow> Inr (s # specifications)))"

definition parse_dict_filters :: "float_parser \<Rightarrow> (string \<times> string) list \<Rightarrow> error + spec option" where
  "parse_dict_filters py_float filters_dict =
     (if filters_dict = [] then Inr None
      else (case parse_dict_items py_float filters_dict of
              Inl e \<Rightarrow> Inl e
            | Inr specifications \<Rightarrow>
                Inr (Some (foldl AndSpecification (Filter (hd specifications))
                                 (map Filter (tl specifications))))))"

definition parse_single_filter ::
  "float_parser \<Rightarrow> string \<Rightarrow> error + (filter_spec \<times> string option)" where
  "parse_single_filter py_float filter_str =
     (let parts = py_split_max 3 (CHR '','') filter_str
      in if length parts < 3
         then Inl (InvalidValueObjectException ''Filter'' filter_str 11003007)
         else
           (let field = py_strip (parts ! 0);
                operator = py_lower (py_strip (parts ! 1));
                value_str = py_strip (parts ! 2);
                connector = (if length parts > 3 then Some (py_lower (py_strip (parts ! 3)))
                             else None)
            in if operator \<notin> set supported_operators
               then Inl (InvalidValueObjectException ''FilterOperator'' operator 11003008)
               else if (case connector of
                          Some c \<Rightarrow> c \<noteq> [] \<and> c \<notin> set supported_connectors
                        | None \<Rightarrow> False)
               then Inl (InvalidValueObjectException ''LogicalConnector'' (the connector)
                           11003009)
               else (case parse_value py_float value_str operator of
                       Inl e \<Rightarrow> Inl e
                     | Inr parsed_value \<Rightarrow>
                         (case create field operator parsed_value of
                            Inl e \<Rightarrow> Inl e
                          | Inr s \<Rightarrow> Inr (s, connector)))))"

text \<open>
  The loop of \<open>_parse_list_filters\<close>: every specification is appended, a connector
  only when it is truthy (present and not empty).
\<close>

fun parse_list_items ::
  "float_parser \<Rightarrow> string list \<Rightarrow> error + (filter_spec list \<times> string list)" where
  "parse_list_items py_float [] = Inr ([], [])"
| "parse_list_items py_float (filter_str # rest) =
     (case parse_single_filter py_float filter_str of
        Inl e \<Rightarrow> Inl e
      | Inr (s, connector) \<Rightarrow>
          (case parse_list_items py_float rest of
             Inl e \<Rightarrow> Inl e
           | Inr (specifications, connectors) \<Rightarrow>
               Inr (s # specifications,
                    (case connector of
                       Some c \<Rightarrow> if c \<noteq> [] then c # connectors else connectors
                     | None \<Rightarrow> connectors))))"

text \<open>The loop of \<open>_combine_specifications\<close>, from index \<open>i\<close> on.\<close>

function combine_loop :: "nat \<Rightarrow> spec list \<Rightarrow> string list \<Rightarrow> spec \<Rightarrow> spec" where
  "combine_loop i specifications connectors result =
     (if i < length specifications then
        (let connector = (if i - 1 < length connectors then connectors ! (i - 1) else ''and'')
         in combine_loop (Suc i) specifications connectors
              (if connector = ''and'' then AndSpecification result (specifications ! i)
               else if connector = ''or'' then OrSpecification result (specifications ! i)
               else result))
      else result)"
  by pat_completeness auto
termination
  by (relation "measure (\<lambda>(i, specifications, connectors, result). length specifications - i)")
     auto

declare combine_loop.simps [simp del]

definition combine_specifications :: "spec list \<Rightarrow> string list \<Rightarrow> spec option" where
  "combine_specifications specifications connectors =
     (if length specifications = 0 then None
      else if length specifications = 1 then Some (specifications ! 0)
      else Some (combine_loop 1 specifications connectors (specifications ! 0)))"

definition parse_list_filters :: "float_parser \<Rightarrow> string list \<Rightarrow> error + spec option" where
  "parse_list_filters py_float filters =
     (if filters = [] then Inr None
      else (case parse_list_items py_float filters of
              Inl e \<Rightarrow> Inl e
            | Inr (specifications, connectors) \<Rightarrow>
                if length specifications = 1 then Inr (Some (Filter (specifications ! 0)))
                else Inr (combine_specifications (map Filter specifications) connectors)))"

datatype filters = ListFilters "string list" | DictFilters "(string \<times> string) list"

fun parse_filters :: "float_parser \<Rightarrow> filters \<Rightarrow> error + spec option" where
  "parse_filters py_float (DictFilters d) =
     (if d = [] then Inr None else parse_dict_filters py_float d)"
| "parse_filters py_float (ListFilters l) =
     (if l = [] then Inr None else parse_list_filters py_float l)"

section \<open>SortParser (sort\_specification.py)\<close>

datatype SortDirection = ASC | DESC

fun direction_value :: "SortDirection \<Rightarrow> string" where
  "direction_value ASC = ''asc''"
| "direction_value DESC = ''desc''"

text \<open>
  A \<open>MultipleSortSpecification\<close> is its list \<open>sorts\<close> of (field, direction) entries;
  \<open>to_sort_criteria\<close> gives each direction by its value.
\<close>

definition to_sort_criteria :: "(string \<times> SortDirection) list \<Rightarrow> (string \<times> string) list" where
  "to_sort_criteria sorts = map (\<lambda>(f, d). (f, direction_value d)) sorts"

definition parse_sort :: "string option \<Rightarrow> error + (string \<times> SortDirection) list option" where
  "parse_sort sort_str =
     (case sort_str of
        None \<Rightarrow> Inr None
      | Some s \<Rightarrow>
          if s = [] \<or> py_strip s = [] then Inr None
          else
            (let parts = py_split (CHR '','') (py_strip s);
                 field = py_strip (parts ! 0)
             in if field = [] then Inr None
                else if length parts > 1 then
                  (let direction_str = py_lower (py_strip (parts ! 1))
                   in if direction_str \<notin> set [''asc'', ''desc'']
                      then Inl (InvalidValueObjectException ''SortDirection'' direction_str
                                  11003012)
                      else Inr (Some [(field, if direction_str = ''asc'' then ASC else DESC)]))
                else Inr (Some [(field, ASC)])))"

section \<open>Backend translators\<close>

text \<open>
  What the translators read from an expression: \<open>expression[key]\<close> raises
  \<open>KeyError\<close> on a missing key, \<open>value[i]\<close> an \<open>IndexError\<close> past the end, and an
  f-string prints a value with \<open>str\<close>.
\<close>

fun doc_repr :: "doc \<Rightarrow> string" where
  "doc_repr (DVal v) = py_repr v"
| "doc_repr (DList ds) = ''['' @ join '', '' (map doc_repr ds) @ '']''"
| "doc_repr (DDict kvs) =
     ''{'' @ join '', '' (map (\<lambda>(k, d). repr_text k @ '': '' @ doc_repr d) kvs) @ ''}''"

definition doc_str :: "doc \<Rightarrow> string" where
  "doc_str d = (case d of DVal v \<Rightarrow> py_str v | _ \<Rightarrow> doc_repr d)"

definition get_item :: "(string \<times> doc) list \<Rightarrow> string \<Rightarrow> error + doc" where
  "get_item kvs key = (case map_of kvs key of None \<Rightarrow> Inl (KeyError key) | Some d \<Rightarrow> Inr d)"

fun doc_index :: "doc \<Rightarrow> nat \<Rightarrow> error + doc" where
  "doc_index (DVal (PList xs)) i = (if i < length xs then Inr (DVal (xs ! i)) else Inl IndexError)"
| "doc_index (DVal (PTuple xs)) i = (if i < length xs then Inr (DVal (xs ! i)) else Inl IndexError)"
| "doc_index (DVal (PStr s)) i = (if i < length s then Inr (DVal (PStr [s ! i])) else Inl IndexError)"
| "doc_index (DList ds) i = (if i < length ds then Inr (ds ! i) else Inl IndexError)"
| "doc_index (DDict kvs) i = Inl (KeyError (int_str (int i)))"
| "doc_index d i = Inl TypeError"

lemma size_map_of_doc: "map_of kvs key = Some d \<Longrightarrow> size d < size (DDict kvs)"
  by (induction kvs) (auto split: if_splits)

subsection \<open>MongoDBSpecificationTranslator (mongodb\_adapter.py)\<close>

text \<open>
  \<open>re.escape\<close> puts a backslash before each special character. \<open>ObjectId(s)\<close> of the
  bson library is a parameter: \<open>None\<close> is its \<open>InvalidId\<close>. The field of an expression
  is a text, as \<open>to_expression\<close> writes it; any other field is answered with
  \<open>TypeError\<close>.
\<close>

definition re_special :: "char list" where
  "re_special = ''()[]{}?*+-|^$'' @ [CHR 0x5C] @ ''.&~# '' @
                [CHR 0x09, CHR 0x0A, CHR 0x0D, CHR 0x0B, CHR 0x0C]"

definition re_escape :: "string \<Rightarrow> string" where
  "re_escape s = concat (map (\<lambda>c. if c \<in> set re_special then [CHR 0x5C, c] else [c]) s)"

type_synonym object_id = "string \<Rightarrow> pyval option"

definition mongo_translate_filter :: "object_id \<Rightarrow> (string \<times> doc) list \<Rightarrow> error + doc" where
  "mongo_translate_filter ObjectId expression =
     (case get_item expression ''field'' of Inl e \<Rightarrow> Inl e | Inr field \<Rightarrow>
     (case get_item expression ''operator'' of Inl e \<Rightarrow> Inl e | Inr operator \<Rightarrow>
     (case get_item expression ''value'' of Inl e \<Rightarrow> Inl e | Inr value0 \<Rightarrow>
      (case field of
         DVal (PStr f) \<Rightarrow>
           (let val = (case value0 of
                         DVal (PStr s) \<Rightarrow>
                           if f = ''_id''
                           then (case ObjectId s of Some oid \<Rightarrow> DVal oid | None \<Rightarrow> value0)
                           else value0
                       | _ \<Rightarrow> value0)
            in if operator = DVal (PStr ''eq'') then Inr (DDict [(f, val)])
               else if operator = DVal (PStr ''ne'') then Inr (DDict [(f, DDict [(''$ne'', val)])])
               else if operator = DVal (PStr ''lt'') then Inr (DDict [(f, DDict [(''$lt'', val)])])
               else if operator = DVal (PStr ''lte'') then Inr (DDict [(f, DDict [(''$lte'', val)])])
               else if operator = DVal (PStr ''gt'') then Inr (DDict [(f, DDict [(''$gt'', val)])])
               else if operator = DVal (PStr ''gte'') then Inr (DDict [(f, DDict [(''$gte'', val)])])
               else if operator = DVal (PStr ''like'') then
                 Inr (DDict [(f, DDict [(''$regex'', DVal (PStr (re_escape (doc_str val)))),
                                        (''$options'', DVal (PStr ''i''))])])
               else if operator = DVal (PStr ''in'') then Inr (DDict [(f, DDict [(''$in'', val)])])
               else if operator = DVal (PStr ''between'') then
                 (case doc_index val 0 of Inl e \<Rightarrow> Inl e | Inr lo \<Rightarrow>
                 (case doc_index val 1 of Inl e \<Rightarrow> Inl e | Inr hi \<Rightarrow>
                  Inr (DDict [(f, DDict [(''$gte'', lo), (''$lte'', hi)])])))
               else if operator = DVal (PStr ''is_null'') then Inr (DDict [(f, DVal PNone)])
               else if operator = DVal (PStr ''is_not_null'') then
                 Inr (DDict [(f, DDict [(''$ne'', DVal PNone)])])
               else Inl (ValueError (''Unsupported filter operator: '' @ doc_str operator)))
       | _ \<Rightarrow> Inl TypeError))))"

text \<open>
  \<open>_translate_expression\<close> tests \<open>"operator" in expression\<close>; on anything that is not
  a dict the test or the subscript after it raises \<open>TypeError\<close>.
\<close>

function mongo_translate_expression :: "object_id \<Rightarrow> doc \<Rightarrow> error + doc"
  and mongo_translate_composite :: "object_id \<Rightarrow> (string \<times> doc) list \<Rightarrow> error + doc" where
  "mongo_translate_expression ObjectId expression =
     (case expression of
        DDict kvs \<Rightarrow>
          if map_of kvs ''operator'' \<noteq> None then mongo_translate_composite ObjectId kvs
          else mongo_translate_filter ObjectId kvs
      | _ \<Rightarrow> Inl TypeError)"
| "mongo_translate_composite ObjectId expression =
     (case map_of expression ''operator'' of
        None \<Rightarrow> Inl (KeyError ''operator'')
      | Some operator \<Rightarrow>
          if operator = DVal (PStr ''AND'') then
            (case map_of expression ''left'' of
               None \<Rightarrow> Inl (KeyError ''left'')
             | Some l \<Rightarrow>
                 (case mongo_translate_expression ObjectId l of
                    Inl e \<Rightarrow> Inl e
                  | Inr left \<Rightarrow>
                      (case map_of expression ''right'' of
                         None \<Rightarrow> Inl (KeyError ''right'')
                       | Some r \<Rightarrow>
                           (case mongo_translate_expression ObjectId r of
                              Inl e \<Rightarrow> Inl e
                            | Inr right \<Rightarrow> Inr (DDict [(''$and'', DList [left, right])])))))
          else if operator = DVal (PStr ''OR'') then
            (case map_of expression ''left'' of
               None \<Rightarrow> Inl (KeyError ''left'')
             | Some l \<Rightarrow>
                 (case mongo_translate_expression ObjectId l of
                    Inl e \<Rightarrow> Inl e
                  | Inr left \<Rightarrow>
                      (case map_of expression ''right'' of
                         None \<Rightarrow> Inl (KeyError ''right'')
                       | Some r \<Rightarrow>
                           (case mongo_translate_expression ObjectId r of
                              Inl e \<Rightarrow> Inl e
                            | Inr right \<Rightarrow> Inr (DDict [(''$or'', DList [left, right])])))))
          else if operator = DVal (PStr ''NOT'') then
            (case map_of expression ''spec'' of
               None \<Rightarrow> Inl (KeyError ''spec'')
             | Some s \<Rightarrow>
                 (case mongo_translate_expression ObjectId s of
                    Inl e \<Rightarrow> Inl e
                  | Inr spec_expr \<Rightarrow> Inr (DDict [(''$not'', spec_expr)])))
          else Inl (ValueError (''Unsupported composite operator: '' @ doc_str operator)))"
  by pat_completeness auto
termination
  by (relation "measure (\<lambda>x. case x of
                   Inl (oid, d) \<Rightarrow> 2 * size d + 1
                 | Inr (oid, kvs) \<Rightarrow> 2 * size (DDict kvs))")
     (auto dest: size_map_of_doc)

declare mongo_translate_expression.simps [simp del]
declare mongo_translate_composite.simps [simp del]

definition mongo_translate :: "object_id \<Rightarrow> spec \<Rightarrow> error + doc" where
  "mongo_translate ObjectId s = mongo_translate_expression ObjectId (to_expression s)"

subsection \<open>SQLAlchemySpecificationTranslator (sqlalchemy\_adapter.py)\<close>

text \<open>
  A model class is its \<open>__name__\<close> and the names \<open>hasattr\<close> finds on it; a clause is
  the SQLAlchemy expression built from a column of the model.
\<close>

record model_class =
  model_name :: string
  model_attributes :: "string list"

datatype clause =
    ColumnEq string doc
  | ColumnNe string doc
  | ColumnLt string doc
  | ColumnLe string doc
  | ColumnGt string doc
  | ColumnGe string doc
  | ColumnILike string string
  | ColumnIn string doc
  | ColumnBetween string doc doc
  | ColumnIsNone string
  | ColumnIsNotNone string
  | SqlAnd clause clause
  | SqlOr clause clause
  | SqlNot clause

definition sql_translate_filter :: "model_class \<Rightarrow> (string \<times> doc) list \<Rightarrow> error + clause" where
  "sql_translate_filter mc expression =
     (case get_item expression ''field'' of Inl e \<Rightarrow> Inl e | Inr field \<Rightarrow>
     (case get_item expression ''operator'' of Inl e \<Rightarrow> Inl e | Inr operator \<Rightarrow>
     (case get_item expression ''value'' of Inl e \<Rightarrow> Inl e | Inr val \<Rightarrow>
      (case field of
         DVal (PStr f) \<Rightarrow>
           if f \<notin> set (model_attributes mc)
           then Inl (ValueError (''Field '' @ [CHR 0x27] @ f @ [CHR 0x27]
                                 @ '' not found in model '' @ model_name mc))
           else if operator = DVal (PStr ''eq'') then Inr (ColumnEq f val)
           else if operator = DVal (PStr ''ne'') then Inr (ColumnNe f val)
           else if operator = DVal (PStr ''lt'') then Inr (ColumnLt f val)
           else if operator = DVal (PStr ''lte'') then Inr (ColumnLe f val)
           else if operator = DVal (PStr ''gt'') then Inr (ColumnGt f val)
           else if operator = DVal (PStr ''gte'') then Inr (ColumnGe f val)
           else if operator = DVal (PStr ''like'') then
             Inr (ColumnILike f (''%'' @ doc_str val @ ''%''))
           else if operator = DVal (PStr ''in'') then Inr (ColumnIn f val)
           else if operator = DVal (PStr ''between'') then
             (case doc_index val 0 of Inl e \<Rightarrow> Inl e | Inr lo \<Rightarrow>
             (case doc_index val 1 of Inl e \<Rightarrow> Inl e | Inr hi \<Rightarrow>
              Inr (ColumnBetween f lo hi)))
           else if operator = DVal (PStr ''is_null'') then Inr (ColumnIsNone f)
           else if operator = DVal (PStr ''is_not_null'') then Inr (ColumnIsNotNone f)
           else Inl (ValueError (''Unsupported filter operator: '' @ doc_str operator))
       | _ \<Rightarrow> Inl TypeError))))"

function sql_translate_expression :: "model_class \<Rightarrow> doc \<Rightarrow> error + clause"
  and sql_translate_composite :: "model_class \<Rightarrow> (string \<times> doc) list \<Rightarrow> error + clause" where
  "sql_translate_expression mc expression =
     (case expression of
        DDict kvs \<Rightarrow>
          if map_of kvs ''operator'' \<noteq> None then sql_translate_composite mc kvs
          else sql_translate_filter mc kvs
      | _ \<Rightarrow> Inl TypeError)"
| "sql_translate_composite mc expression =
     (case map_of expression ''operator'' of
        None \<Rightarrow> Inl (KeyError ''operator'')
      | Some operator \<Rightarrow>
          if operator = DVal (PStr ''AND'') then
            (case map_of expression ''left'' of
               None \<Rightarrow> Inl (KeyError ''left'')
             | Some l \<Rightarrow>
                 (case sql_translate_expression mc l of
                    Inl e \<Rightarrow> Inl e
                  | Inr left \<Rightarrow>
                      (case map_of expression ''right'' of
                         None \<Rightarrow> Inl (KeyError ''right'')
                       | Some r \<Rightarrow>
                           (case sql_translate_expression mc r of
                              Inl e \<Rightarrow> Inl e
                            | Inr right \<Rightarrow> Inr (SqlAnd left right)))))
          else if operator = DVal (PStr ''OR'') then
            (case map_of expression ''left'' of
               None \<Rightarrow> Inl (KeyError ''left'')
             | Some l \<Rightarrow>
                 (case sql_translate_expression mc l of
                    Inl e \<Rightarrow> Inl e
                  | Inr left \<Rightarrow>
                      (case map_of expression ''right'' of
                         None \<Rightarrow> Inl (KeyError ''right'')
                       | Some r \<Rightarrow>
                           (case sql_translate_expression mc r of
                              Inl e \<Rightarrow> Inl e
                            | Inr right \<Rightarrow> Inr (SqlOr left right)))))
          else if operator = DVal (PStr ''NOT'') then
            (case map_of expression ''spec'' of
               None \<Rightarrow> Inl (KeyError ''spec'')
             | Some s \<Rightarrow>
                 (case sql_translate_expression mc s of
                    Inl e \<Rightarrow> Inl e
                  | Inr spec_expr \<Rightarrow> Inr (SqlNot spec_expr)))
          else Inl (ValueError (''Unsupported composite operator: '' @ doc_str operator)))"
  by pat_completeness auto
termination
  by (relation "measure (\<lambda>x. case x of
                   Inl (mc, d) \<Rightarrow> 2 * size d + 1
                 | Inr (mc, kvs) \<Rightarrow> 2 * size (DDict kvs))")
     (auto dest: size_map_of_doc)

declare sql_translate_expression.simps [simp del]
declare sql_translate_composite.simps [simp del]

definition sql_translate :: "model_class \<Rightarrow> spec \<Rightarrow> error + clause" where
  "sql_translate mc s = sql_translate_expression mc (to_expression s)"

section \<open>Evaluation of leaf specifications\<close>

text \<open>
  Claim C3. A leaf specification serialises to the dict of its field, operator and
  value, and \<open>SpecificationFactory.create\<close> on these three builds a specification that
  \<open>is_satisfied_by\<close> cannot tell from the original, on any candidate. This holds for
  each of the eleven leaf classes: \<open>between\<close> serialises its two bounds as a list of
  two, \<open>is_null\<close> and \<open>is_not_null\<close> serialise the value \<open>None\<close>.
\<close>

theorem factory_round_trip:
  "filter_to_expression l =
     DDict [(''field'', DVal (PStr (field_of l))),
            (''operator'', DVal (PStr (operator_of l))),
            (''value'', DVal (value_of l))]
   \<and> (\<exists>l'. create (field_of l) (operator_of l) (value_of l) = Inr l'
          \<and> (\<forall>c. is_satisfied_by (Filter l') c = is_satisfied_by (Filter l) c))"
proof -
  have "create (field_of l) (operator_of l) (value_of l) = Inr l"
    by (cases l) (simp_all add: create_def operator_keys_def)
  then show ?thesis
    by (simp add: filter_to_expression_def)
qed

text \<open>
  Claim C5. A leaf whose field the candidate does not have evaluates to \<open>False\<close>
  and raises nothing; and a \<open>lt\<close>, \<open>lte\<close>, \<open>gt\<close> or \<open>gte\<close> leaf whose stored value
  cannot be ordered against the candidate's value (the comparison is a \<open>TypeError\<close>)
  evaluates to \<open>False\<close> and raises nothing.
\<close>

theorem leaf_evaluation_fail_closed:
  "(py_getattr c (field_of l) = None \<longrightarrow> is_satisfied_by (Filter l) c = Inr False)
   \<and> (py_getattr c f = Some fv \<and> py_cmp LT fv v = None \<longrightarrow>
        is_satisfied_by (Filter (LessThanSpecification f v)) c = Inr False)
   \<and> (py_getattr c f = Some fv \<and> py_cmp LE fv v = None \<longrightarrow>
        is_satisfied_by (Filter (LessThanOrEqualSpecification f v)) c = Inr False)
   \<and> (py_getattr c f = Some fv \<and> py_cmp GT fv v = None \<longrightarrow>
        is_satisfied_by (Filter (GreaterThanSpecification f v)) c = Inr False)
   \<and> (py_getattr c f = Some fv \<and> py_cmp GE fv v = None \<longrightarrow>
        is_satisfied_by (Filter (GreaterThanOrEqualSpecification f v)) c = Inr False)"
  by (simp add: filter_is_satisfied_by_def)

text \<open>
  An object with the one attribute \<open>age = 'x'\<close>: it has no \<open>name\<close>, and its \<open>age\<close>
  cannot be ordered against the integer 5.
\<close>

theorem leaf_evaluation_fail_closed_witness:
  "py_getattr (Object [(''age'', PStr ''x'')]) (field_of (EqualSpecification ''name'' (PInt 1))) = None
   \<and> is_satisfied_by (Filter (EqualSpecification ''name'' (PInt 1))) (Object [(''age'', PStr ''x'')])
       = Inr False
   \<and> py_getattr (Object [(''age'', PStr ''x'')]) ''age'' = Some (PStr ''x'')
   \<and> py_cmp LT (PStr ''x'') (PInt 5) = None
   \<and> py_cmp LE (PStr ''x'') (PInt 5) = None
   \<and> py_cmp GT (PStr ''x'') (PInt 5) = None
   \<and> py_cmp GE (PStr ''x'') (PInt 5) = None
   \<and> is_satisfied_by (Filter (LessThanSpecification ''age'' (PInt 5)))
        (Object [(''age'', PStr ''x'')]) = Inr False
   \<and> is_satisfied_by (Filter (LessThanOrEqualSpecification ''age'' (PInt 5)))
        (Object [(''age'', PStr ''x'')]) = Inr False
   \<and> is_satisfied_by (Filter (GreaterThanSpecification ''age'' (PInt 5)))
        (Object [(''age'', PStr ''x'')]) = Inr False
   \<and> is_satisfied_by (Filter (GreaterThanOrEqualSpecification ''age'' (PInt 5)))
        (Object [(''age'', PStr ''x'')]) = Inr False"
  using leaf_evaluation_fail_closed
          [of "Object [(''age'', PStr ''x'')]" "EqualSpecification ''name'' (PInt 1)"
              "''age''" "PStr ''x''" "PInt 5"]
  by simp

text \<open>
  Claim C10, as stated: on a candidate that is a plain dict, every leaf evaluates to
  \<open>False\<close>, whatever its field and operator. It fails for a field that names an
  attribute of the dict object itself: \<open>getattr\<close> finds the method \<open>keys\<close> on the
  empty dict, which is not \<open>None\<close>, so \<open>is_not_null\<close> on \<open>keys\<close> is satisfied.
\<close>

theorem dict_candidate_counterexample:
  "is_satisfied_by (Filter (IsNotNullSpecification ''keys'')) (Mapping []) = Inr True"
  by (simp add: filter_is_satisfied_by_def dict_attribute_names_def dict_attribute_def)

text \<open>
  Claim C10, amended. For a field that is not the name of an attribute of the dict
  object, the lookup on a plain dict yields no value and the leaf evaluates to
  \<open>False\<close>, whatever the operator and whether or not the dict has an entry under the
  field.
\<close>

theorem dict_candidate_lookup_is_attribute_based:
  "field_of l \<notin> set dict_attribute_names \<Longrightarrow>
     py_getattr (Mapping entries) (field_of l) = None
     \<and> is_satisfied_by (Filter l) (Mapping entries) = Inr False"
  by (simp add: filter_is_satisfied_by_def)

theorem dict_candidate_lookup_is_attribute_based_witness:
  "field_of (EqualSpecification ''age'' (PInt 3)) \<notin> set dict_attribute_names
   \<and> py_getattr (Mapping [(''age'', PInt 3)]) (field_of (EqualSpecification ''age'' (PInt 3))) = None
   \<and> is_satisfied_by (Filter (EqualSpecification ''age'' (PInt 3))) (Mapping [(''age'', PInt 3)])
       = Inr False"
proof -
  have h: "field_of (EqualSpecification ''age'' (PInt 3)) \<notin> set dict_attribute_names"
    by (simp add: dict_attribute_names_def)
  show ?thesis
    using h dict_candidate_lookup_is_attribute_based [OF h, of "[(''age'', PInt 3)]"]
    by simp
qed

section \<open>Parsing: what the code does where it departs from the claims\<close>

lemmas text_defs = py_lower_def lower_char_def upper_case_def lower_case_def py_strip_def
  is_space_def whitespace_def py_isdigit_def is_digit_def is_decimal_def py_int_def
  int_space_def int_max_str_digits_def digits_val_def digit_val_def Let_def

lemmas parser_defs = parse_dict_filters_def parse_dict_item_def dict_key_field_def
  dict_key_operator_def map_operator_def operator_mapping_def supported_operators_def
  operator_keys_def parse_value_def convert_single_value_def create_def
  parse_list_filters_def parse_single_filter_def supported_connectors_def
  combine_specifications_def

text \<open>
  Claim C1 says that the alias tokens \<open>ilike\<close>, \<open>isnull\<close> and \<open>isnotnull\<close> of the map
  syntax are normalised to \<open>like\<close>, \<open>is_null\<close> and \<open>is_not_null\<close>. The table
  \<open>operator_mapping\<close> maps each alias to itself, and none of the three is a supported
  operator: the parser rejects each of them as an unknown operator.
\<close>

theorem alias_operators_are_rejected:
  "parse_filters py_float (DictFilters [(''name__ilike'', ''x'')])
     = Inl (InvalidValueObjectException ''FilterOperator'' ''ilike'' 11003008)
   \<and> parse_filters py_float (DictFilters [(''deleted_at__isnull'', [])])
     = Inl (InvalidValueObjectException ''FilterOperator'' ''isnull'' 11003008)
   \<and> parse_filters py_float (DictFilters [(''deleted_at__isnotnull'', [])])
     = Inl (InvalidValueObjectException ''FilterOperator'' ''isnotnull'' 11003008)"
  by (simp add: parser_defs text_defs)

text \<open>The same for any key and any value: an alias is never accepted.\<close>

lemma alias_rejected_general:
  "dict_key_operator key \<in> set [''ilike'', ''isnull'', ''isnotnull''] \<Longrightarrow>
   parse_dict_item py_float (key, v)
     = Inl (InvalidValueObjectException ''FilterOperator'' (dict_key_operator key) 11003008)"
  by (auto simp: parse_dict_item_def map_operator_def operator_mapping_def supported_operators_def
      operator_keys_def)

text \<open>
  Claim C2 says that the connector of entry \<open>i\<close> joins the running result with entry
  \<open>i+1\<close>, so that the three entries below give \<open>(a AND b) OR c\<close>. The parser appends a
  connector only for an entry that has one, so the \<open>or\<close> of the second entry is the
  first connector of the list and joins the first two entries: the result is
  \<open>(a OR b) AND c\<close>.
\<close>

theorem list_connectors_are_compacted:
  "parse_filters py_float (ListFilters [''a,eq,1'', ''b,eq,2,or'', ''c,eq,3''])
     = Inr (Some (AndSpecification
                    (OrSpecification (Filter (EqualSpecification ''a'' (PInt 1)))
                                     (Filter (EqualSpecification ''b'' (PInt 2))))
                    (Filter (EqualSpecification ''c'' (PInt 3)))))"
  by (simp add: parser_defs text_defs combine_loop.simps)

section \<open>Backend translators: what the code does where it departs from the claims\<close>

text \<open>
  Claim C4 says that the document-oriented translator maps \<open>NOT(A AND B)\<close> to
  \<open>{"$not": {"$and": [T(A), T(B)]}}\<close>. Every expression that \<open>to_expression\<close> builds
  has the key \<open>operator\<close>, the leaves too, so \<open>_translate_expression\<close> sends a leaf to
  \<open>_translate_composite\<close>, which knows no composite operator \<open>eq\<close> and raises.
\<close>

theorem mongo_negation_of_conjunction_raises:
  "mongo_translate ObjectId
     (NotSpecification (AndSpecification (Filter (EqualSpecification ''a'' (PInt 1)))
                                         (Filter (EqualSpecification ''b'' (PInt 2)))))
     = Inl (ValueError ''Unsupported composite operator: eq'')"
  by (simp add: mongo_translate_def filter_to_expression_def mongo_translate_expression.simps
      mongo_translate_composite.simps doc_str_def py_str_def)

text \<open>
  No expression at all is translated: a dict without the key \<open>operator\<close> fails in
  \<open>_translate_filter\<close>, which reads that key, and a dict with it is taken for a
  composite, whose children fail in turn.
\<close>

lemma mongo_filter_needs_operator:
  "map_of kvs ''operator'' = None \<Longrightarrow> \<exists>e. mongo_translate_filter ObjectId kvs = Inl e"
  by (simp add: mongo_translate_filter_def get_item_def split: option.splits)

lemma mongo_composite_fails:
  assumes sub: "\<And>k d. map_of kvs k = Some d \<Longrightarrow> \<exists>e. mongo_translate_expression ObjectId d = Inl e"
  shows "\<exists>e. mongo_translate_composite ObjectId kvs = Inl e"
proof (cases "map_of kvs ''operator''")
  case None
  then show ?thesis by (simp add: mongo_translate_composite.simps)
next
  case (Some operator)
  show ?thesis
  proof (cases "operator = DVal (PStr ''AND'') \<or> operator = DVal (PStr ''OR'')")
    case True
    show ?thesis
    proof (cases "map_of kvs ''left''")
      case None
      with Some True show ?thesis by (auto simp: mongo_translate_composite.simps)
    next
      case (Some l)
      from sub [OF Some] obtain e where "mongo_translate_expression ObjectId l = Inl e" ..
      with Some \<open>map_of kvs ''operator'' = Some operator\<close> True show ?thesis
        by (auto simp: mongo_translate_composite.simps)
    qed
  next
    case False
    show ?thesis
    proof (cases "operator = DVal (PStr ''NOT'')")
      case True
      show ?thesis
      proof (cases "map_of kvs ''spec''")
        case None
        with Some True show ?thesis by (simp add: mongo_translate_composite.simps)
      next
        case (Some s)
        from sub [OF Some] obtain e where "mongo_translate_expression ObjectId s = Inl e" ..
        with Some \<open>map_of kvs ''operator'' = Some operator\<close> True show ?thesis
          by (simp add: mongo_translate_composite.simps)
      qed
    next
      case notnot: False
      with False Some show ?thesis by (simp add: mongo_translate_composite.simps)
    qed
  qed
qed

lemma mongo_never_returns: "\<exists>e. mongo_translate_expression ObjectId d = Inl e"
proof (induction d rule: measure_induct_rule [of size])
  case (less d)
  show ?case
  proof (cases d)
    case (DDict kvs)
    show ?thesis
    proof (cases "map_of kvs ''operator''")
      case None
      with DDict mongo_filter_needs_operator [OF None, of ObjectId] show ?thesis
        by (simp add: mongo_translate_expression.simps)
    next
      case (Some operator)
      have "\<exists>e. mongo_translate_composite ObjectId kvs = Inl e"
      proof (rule mongo_composite_fails)
        fix k d'
        assume "map_of kvs k = Some d'"
        then have "size d' < size (DDict kvs)" by (rule size_map_of_doc)
        then have "size d' < size d" using DDict by simp
        then show "\<exists>e. mongo_translate_expression ObjectId d' = Inl e" by (rule less.IH)
      qed
      with DDict Some show ?thesis by (simp add: mongo_translate_expression.simps)
    qed
  qed (simp_all add: mongo_translate_expression.simps)
qed

text \<open>
  Claim C8 says that a leaf whose field the model does not have raises a failure that
  names the field and the entity type. The relational translator dispatches as the
  document-oriented one does: the leaf reaches \<open>_translate_composite\<close> and the failure
  names the operator instead.
\<close>

theorem sql_unknown_field_reports_operator:
  "sql_translate \<lparr>model_name = ''User'', model_attributes = [''id'', ''name'']\<rparr>
     (Filter (EqualSpecification ''nope'' (PInt 1)))
     = Inl (ValueError ''Unsupported composite operator: eq'')"
  by (simp add: sql_translate_def filter_to_expression_def sql_translate_expression.simps
      sql_translate_composite.simps doc_str_def py_str_def)

text \<open>
  \<open>_translate_filter\<close> itself, were it called with the leaf, checks the field before
  the operator and names the field and the model; the dispatcher never calls it with
  an expression it can translate.
\<close>

lemma sql_translate_filter_unknown_field:
  "f \<notin> set (model_attributes mc) \<Longrightarrow>
   sql_translate_filter mc [(''field'', DVal (PStr f)), (''operator'', op), (''value'', v)]
     = Inl (ValueError (''Field '' @ [CHR 0x27] @ f @ [CHR 0x27] @ '' not found in model ''
                        @ model_name mc))"
  by (simp add: sql_translate_filter_def get_item_def)

lemma sql_filter_needs_operator:
  "map_of kvs ''operator'' = None \<Longrightarrow> \<exists>e. sql_translate_filter mc kvs = Inl e"
  by (simp add: sql_translate_filter_def get_item_def split: option.splits)

lemma sql_composite_fails:
  assumes sub: "\<And>k d. map_of kvs k = Some d \<Longrightarrow> \<exists>e. sql_translate_expression mc d = Inl e"
  shows "\<exists>e. sql_translate_composite mc kvs = Inl e"
proof (cases "map_of kvs ''operator''")
  case None
  then show ?thesis by (simp add: sql_translate_composite.simps)
next
  case (Some operator)
  show ?thesis
  proof (cases "operator = DVal (PStr ''AND'') \<or> operator = DVal (PStr ''OR'')")
    case True
    show ?thesis
    proof (cases "map_of kvs ''left''")
      case None
      with Some True show ?thesis by (auto simp: sql_translate_composite.simps)
    next
      case (Some l)
      from sub [OF Some] obtain e where "sql_translate_expression mc l = Inl e" ..
      with Some \<open>map_of kvs ''operator'' = Some operator\<close> True show ?thesis
        by (auto simp: sql_translate_composite.simps)
    qed
  next
    case False
    show ?thesis
    proof (cases "operator = DVal (PStr ''NOT'')")
      case True
      show ?thesis
      proof (cases "map_of kvs ''spec''")
        case None
        with Some True show ?thesis by (simp add: sql_translate_composite.simps)
      next
        case (Some s)
        from sub [OF Some] obtain e where "sql_translate_expression mc s = Inl e" ..
        with Some \<open>map_of kvs ''operator'' = Some operator\<close> True show ?thesis
          by (simp add: sql_translate_composite.simps)
      qed
    next
      case notnot: False
      with False Some show ?thesis by (simp add: sql_translate_composite.simps)
    qed
  qed
qed

lemma sql_never_returns: "\<exists>e. sql_translate_expression mc d = Inl e"
proof (induction d rule: measure_induct_rule [of size])
  case (less d)
  show ?case
  proof (cases d)
    case (DDict kvs)
    show ?thesis
    proof (cases "map_of kvs ''operator''")
      case None
      with DDict sql_filter_needs_operator [OF None, of mc] show ?thesis
        by (simp add: sql_translate_expression.simps)
    next
      case (Some operator)
      have "\<exists>e. sql_translate_composite mc kvs = Inl e"
      proof (rule sql_composite_fails)
        fix k d'
        assume "map_of kvs k = Some d'"
        then have "size d' < size (DDict kvs)" by (rule size_map_of_doc)
        then have "size d' < size d" using DDict by simp
        then show "\<exists>e. sql_translate_expression mc d' = Inl e" by (rule less.IH)
      qed
      with DDict Some show ?thesis by (simp add: sql_translate_expression.simps)
    qed
  qed (simp_all add: sql_translate_expression.simps)
qed

section \<open>Entries of the two syntaxes\<close>










section \<open>Value coercion\<close>































section \<open>The \<open>between\<close> operator\<close>


















section \<open>The sort grammar\<close>

lemma comma_not_space: "\<not> is_space (CHR '','')"
  by (simp add: is_space_def whitespace_def)

lemma rstrip_keeps_head:
  assumes "\<not> P y"
  shows "\<exists>w. rev (dropWhile P (rev (y # ys))) = y # w"
proof -
  have "dropWhile P (rev ys @ [y]) = dropWhile P (rev ys) @ [y]"
    using assms by (simp add: dropWhile_append)
  then show ?thesis by simp
qed

lemma rstrip_append:
  assumes "\<not> P y"
  shows "rev (dropWhile P (rev (xs @ y # ys))) = xs @ y # rev (dropWhile P (rev ys))"
proof -
  have "dropWhile P (rev ys @ y # rev xs) = dropWhile P (rev ys) @ y # rev xs"
    using assms by (simp add: dropWhile_append)
  then show ?thesis by simp
qed

lemma trim_commute:
  "dropWhile P (rev (dropWhile P (rev xs))) = rev (dropWhile P (rev (dropWhile P xs)))"
proof (cases "\<forall>x\<in>set xs. P x")
  case True
  then have e: "dropWhile P xs = []" "dropWhile P (rev xs) = []" by simp_all
  show ?thesis unfolding e by simp
next
  case False
  then have ne: "dropWhile P xs \<noteq> []" by simp
  then obtain y ys where ys: "dropWhile P xs = y # ys" by (cases "dropWhile P xs") auto
  with hd_dropWhile [OF ne] have ny: "\<not> P y" by simp
  have xs: "xs = takeWhile P xs @ y # ys" using ys by (metis takeWhile_dropWhile_id)
  have "rev (dropWhile P (rev xs)) = takeWhile P xs @ y # rev (dropWhile P (rev ys))"
    by (subst xs) (rule rstrip_append [of P y, OF ny])
  moreover have "dropWhile P (takeWhile P xs @ y # rev (dropWhile P (rev ys)))
                   = y # rev (dropWhile P (rev ys))"
    using ny by (simp add: dropWhile_append) (metis set_takeWhileD)
  moreover have "rev (dropWhile P (rev (y # ys))) = y # rev (dropWhile P (rev ys))"
    using rstrip_append [of P y "[]" ys, OF ny] by simp
  ultimately show ?thesis using ys by simp
qed

lemma py_strip_idem: "py_strip (py_strip s) = py_strip s"
  unfolding py_strip_def by (simp add: trim_commute)

lemma py_strip_lstrip: "py_strip (dropWhile is_space s) = py_strip s"
  unfolding py_strip_def by simp

lemma py_strip_rstrip: "py_strip (rev (dropWhile is_space (rev s))) = py_strip s"
  unfolding py_strip_def by (simp add: trim_commute)

lemma py_strip_blank: "(py_strip s = []) = (\<forall>c\<in>set s. is_space c)"
proof
  assume e: "py_strip s = []"
  show "\<forall>c\<in>set s. is_space c"
  proof (rule ccontr)
    assume "\<not> (\<forall>c\<in>set s. is_space c)"
    then have ne: "dropWhile is_space s \<noteq> []" by simp
    then obtain y ys where ys: "dropWhile is_space s = y # ys"
      by (cases "dropWhile is_space s") auto
    with hd_dropWhile [OF ne] have ny: "\<not> is_space y" by simp
    from rstrip_keeps_head [of is_space y ys, OF ny] obtain w
      where w: "rev (dropWhile is_space (rev (y # ys))) = y # w" by blast
    have "py_strip s = y # w"
      unfolding py_strip_def ys by (fact w)
    with e show False by simp
  qed
next
  assume "\<forall>c\<in>set s. is_space c"
  then have d: "dropWhile is_space s = []" by simp
  show "py_strip s = []" unfolding py_strip_def d by simp
qed

lemma py_split_no_sep: "sep \<notin> set a \<Longrightarrow> py_split sep a = [a]"
  by (induction a) auto

lemma py_split_first: "sep \<notin> set a \<Longrightarrow> py_split sep (a @ sep # b) = a # py_split sep b"
  by (induction a) auto

lemma py_split_not_empty: "py_split sep s \<noteq> []"
  by (induction s) (auto split: list.splits)

lemma set_py_strip: "c \<notin> set s \<Longrightarrow> c \<notin> set (py_strip s)"
  unfolding py_strip_def by (auto dest!: set_dropWhileD)

lemma set_lstrip: "c \<notin> set s \<Longrightarrow> c \<notin> set (dropWhile is_space s)"
  by (auto dest!: set_dropWhileD)

text \<open>
  Stripping a text after its first comma does not change the stripped segment between
  the first comma and the second.
\<close>

lemma second_segment:
  "py_strip (hd (py_split (CHR '','') (rev (dropWhile is_space (rev t)))))
     = py_strip (hd (py_split (CHR '','') t))"
proof (cases "CHR '','' \<in> set t")
  case False
  then have "CHR '','' \<notin> set (rev (dropWhile is_space (rev t)))"
    by (auto dest!: set_dropWhileD)
  with False show ?thesis
    by (simp add: py_split_no_sep py_strip_rstrip)
next
  case True
  then obtain a b where t: "t = a @ CHR '','' # b" and a: "CHR '','' \<notin> set a"
    by (auto dest: split_list_first)
  show ?thesis
    unfolding t rstrip_append [of is_space "CHR '',''", OF comma_not_space]
    using a by (simp add: py_split_first)
qed

text \<open>The text of a sort parameter around its first comma.\<close>

lemma strip_around_comma:
  assumes "CHR '','' \<notin> set f"
  shows "py_strip (f @ CHR '','' # t)
           = dropWhile is_space f @ CHR '','' # rev (dropWhile is_space (rev t))"
proof -
  have "dropWhile is_space (f @ CHR '','' # t) = dropWhile is_space f @ CHR '','' # t"
    using comma_not_space by (simp add: dropWhile_append)
  then show ?thesis
    unfolding py_strip_def
    using rstrip_append [of is_space "CHR '',''", OF comma_not_space] by simp
qed

lemma parse_sort_field_only:
  assumes "CHR '','' \<notin> set f"
  shows "parse_sort (Some f) =
           (if py_strip f = [] then Inr None else Inr (Some [(py_strip f, ASC)]))"
proof (cases "py_strip f = []")
  case True
  then show ?thesis by (simp add: parse_sort_def)
next
  case False
  have parts: "py_split (CHR '','') (py_strip f) = [py_strip f]"
    using assms by (simp add: py_split_no_sep set_py_strip)
  from False have "f \<noteq> []" by (auto simp: py_strip_def)
  with False show ?thesis
    unfolding parse_sort_def by (simp add: Let_def parts py_strip_idem)
qed

lemma parse_sort_field_direction:
  assumes "CHR '','' \<notin> set f"
  shows "parse_sort (Some (f @ CHR '','' # t)) =
           (if py_strip f = [] then Inr None
            else if py_lower (py_strip (hd (py_split (CHR '','') t))) = ''asc''
              then Inr (Some [(py_strip f, ASC)])
            else if py_lower (py_strip (hd (py_split (CHR '','') t))) = ''desc''
              then Inr (Some [(py_strip f, DESC)])
            else Inl (InvalidValueObjectException ''SortDirection''
                        (py_lower (py_strip (hd (py_split (CHR '','') t)))) 11003012))"
proof -
  let ?r = "rev (dropWhile is_space (rev t))"
  note strip = strip_around_comma [OF assms, of t]
  have nf: "CHR '','' \<notin> set (dropWhile is_space f)"
    using assms by (rule set_lstrip)
  obtain p ps where ps: "py_split (CHR '','') ?r = p # ps"
    using py_split_not_empty [of "CHR '',''" ?r] by (cases "py_split (CHR '','') ?r") auto
  have parts: "py_split (CHR '','') (py_strip (f @ CHR '','' # t)) = dropWhile is_space f # p # ps"
    unfolding strip using nf by (simp add: py_split_first ps)
  have p: "py_strip p = py_strip (hd (py_split (CHR '','') t))"
    using second_segment [of t] by (simp add: ps)
  have ne: "py_strip (f @ CHR '','' # t) \<noteq> []" unfolding strip by simp
  show ?thesis
    unfolding parse_sort_def using ne
    by (simp add: Let_def parts py_strip_lstrip p)
qed

text \<open>
  Claim C9, as stated: every direction token other than \<open>asc\<close> and \<open>desc\<close> makes
  \<open>parse_sort\<close> raise. With no field before the comma nothing is raised: the field is
  tested first, and \<open>parse_sort(",sideways")\<close> returns \<open>None\<close>.
\<close>

theorem sort_grammar_counterexample:
  "parse_sort (Some '',sideways'') = Inr None"
  by (simp add: parse_sort_def text_defs)

text \<open>
  Claim C9, amended. \<open>parse_sort("created_at,desc")\<close> is the one-entry sort list
  \<open>[("created_at", "desc")]\<close> and \<open>parse_sort("name")\<close> is \<open>[("name", "asc")]\<close>. In
  general \<open>parse_sort\<close> returns \<open>None\<close> for no text and for a text whose field, the
  stripped text before the first comma, is empty. For every other text: without a
  comma it sorts ascending by the field; with a comma it sorts by the direction token,
  the stripped and lower-cased text between the first comma and the second (or the
  end), when the token is \<open>asc\<close> or \<open>desc\<close>, and for every other token it raises
  \<open>InvalidValueObjectException\<close> of type \<open>SortDirection\<close> with the token as
  \<open>invalid_value\<close>.
\<close>

theorem sort_grammar:
  "map_sum id (map_option to_sort_criteria) (parse_sort (Some ''created_at,desc''))
     = Inr (Some [(''created_at'', ''desc'')])
   \<and> map_sum id (map_option to_sort_criteria) (parse_sort (Some ''name''))
     = Inr (Some [(''name'', ''asc'')])
   \<and> parse_sort None = Inr None
   \<and> (CHR '','' \<notin> set f \<longrightarrow>
        parse_sort (Some f) =
          (if py_strip f = [] then Inr None else Inr (Some [(py_strip f, ASC)])))
   \<and> (CHR '','' \<notin> set f \<longrightarrow>
        parse_sort (Some (f @ CHR '','' # t)) =
          (if py_strip f = [] then Inr None
           else if py_lower (py_strip (hd (py_split (CHR '','') t))) = ''asc''
             then Inr (Some [(py_strip f, ASC)])
           else if py_lower (py_strip (hd (py_split (CHR '','') t))) = ''desc''
             then Inr (Some [(py_strip f, DESC)])
           else Inl (InvalidValueObjectException ''SortDirection''
                       (py_lower (py_strip (hd (py_split (CHR '','') t)))) 11003012)))"
proof (intro conjI impI)
  have "parse_sort (Some (''created_at'' @ CHR '','' # ''desc''))
          = Inr (Some [(''created_at'', DESC)])"
    by (subst parse_sort_field_direction) (simp_all add: text_defs)
  then show "map_sum id (map_option to_sort_criteria) (parse_sort (Some ''created_at,desc''))
               = Inr (Some [(''created_at'', ''desc'')])"
    by (simp add: to_sort_criteria_def)
  have "parse_sort (Some ''name'') = Inr (Some [(''name'', ASC)])"
    by (subst parse_sort_field_only) (simp_all add: text_defs)
  then show "map_sum id (map_option to_sort_criteria) (parse_sort (Some ''name''))
               = Inr (Some [(''name'', ''asc'')])"
    by (simp add: to_sort_criteria_def)
  show "parse_sort None = Inr None"
    by (simp add: parse_sort_def)
  show "parse_sort (Some f) =
          (if py_strip f = [] then Inr None else Inr (Some [(py_strip f, ASC)]))"
    if "CHR '','' \<notin> set f"
    using that by (rule parse_sort_field_only)
  show "parse_sort (Some (f @ CHR '','' # t)) =
          (if py_strip f = [] then Inr None
           else if py_lower (py_strip (hd (py_split (CHR '','') t))) = ''asc''
             then Inr (Some [(py_strip f, ASC)])
           else if py_lower (py_strip (hd (py_split (CHR '','') t))) = ''desc''
             then Inr (Some [(py_strip f, DESC)])
           else Inl (InvalidValueObjectException ''SortDirection''
                       (py_lower (py_strip (hd (py_split (CHR '','') t)))) 11003012))"
    if "CHR '','' \<notin> set f"
    using that by (rule parse_sort_field_direction)
qed

text \<open>
  The field \<open>name\<close> alone and with the direction tokens \<open>sideways\<close>, \<open> Desc \<close> between
  blanks, \<open>DESC\<close> after a no-break space, \<open>asc\<close> before a third segment; a blank text;
  and the empty field before \<open>sideways\<close>.
\<close>

theorem sort_grammar_witness:
  "CHR '','' \<notin> set ''name'' \<and> CHR '','' \<notin> set ''  '' \<and> CHR '','' \<notin> set []
   \<and> parse_sort (Some ''name'') = Inr (Some [(''name'', ASC)])
   \<and> parse_sort (Some ''  '') = Inr None
   \<and> parse_sort (Some ''name,sideways'')
       = Inl (InvalidValueObjectException ''SortDirection'' ''sideways'' 11003012)
   \<and> parse_sort (Some ''name, Desc '') = Inr (Some [(''name'', DESC)])
   \<and> parse_sort (Some (''name,'' @ [CHR 0xA0] @ ''DESC'')) = Inr (Some [(''name'', DESC)])
   \<and> parse_sort (Some ''name,asc,x'') = Inr (Some [(''name'', ASC)])
   \<and> parse_sort (Some '',sideways'') = Inr None"
proof -
  have c: "CHR '','' \<notin> set ''name''" "CHR '','' \<notin> set ''  ''" "CHR '','' \<notin> set []"
    by simp_all
  note only = sort_grammar [THEN conjunct2, THEN conjunct2, THEN conjunct2, THEN conjunct1]
  note both = sort_grammar [THEN conjunct2, THEN conjunct2, THEN conjunct2, THEN conjunct2]
  have a1: "parse_sort (Some ''name'') = Inr (Some [(''name'', ASC)])"
    using only [of "''name''"] c by (simp add: text_defs)
  have a2: "parse_sort (Some ''  '') = Inr None"
    using only [of "''  ''"] c by (simp add: text_defs)
  have a3: "parse_sort (Some ''name,sideways'')
              = Inl (InvalidValueObjectException ''SortDirection'' ''sideways'' 11003012)"
    using both [of "''name''" "''sideways''"] c by (simp add: text_defs)
  have a4: "parse_sort (Some ''name, Desc '') = Inr (Some [(''name'', DESC)])"
    using both [of "''name''" "'' Desc ''"] c by (simp add: text_defs)
  have a5: "parse_sort (Some (''name,'' @ [CHR 0xA0] @ ''DESC'')) = Inr (Some [(''name'', DESC)])"
    using both [of "''name''" "[CHR 0xA0] @ ''DESC''"] c by (simp add: text_defs)
  have a6: "parse_sort (Some ''name,asc,x'') = Inr (Some [(''name'', ASC)])"
    using both [of "''name''" "''asc,x''"] c by (simp add: text_defs)
  have a7: "parse_sort (Some '',sideways'') = Inr None"
    using both [of "[]" "''sideways''"] c by (simp add: text_defs)
  show ?thesis
    using c a1 a2 a3 a4 a5 a6 a7 by (intro conjI) assumption+
qed

end
